theory Spec2Isabelle
  imports Main
begin

section \<open>The marketing layout of trello-app\<close>

text \<open>
  The unit under verification is \<^verbatim>\<open>src/trello-app/src/app/(marketing)/layout.tsx\<close>:
  \<^verbatim>\<open>
  interface MarketingLayoutProps {
    children: React.ReactNode;
  }

  const MarketingLayout = ({ children }: MarketingLayoutProps) => {
    return (
      <div className="bg-slate-100 h-full">
        <main className="pt-40 pb-20 bg-slate-100">{children}</main>
      </div>
    );
  }
  \<close>
  The JSX expression is two nested calls of React's element constructor, the inner one
  evaluated first: \<^verbatim>\<open>jsx("div", {className: ..., children: jsx("main", {className: ..., children})})\<close>.
\<close>

subsection \<open>Values: React nodes and elements\<close>

text \<open>
  \<^verbatim>\<open>React.ReactNode\<close> is the union of \<^verbatim>\<open>undefined\<close>, \<^verbatim>\<open>null\<close>, booleans, numbers,
  strings, elements and sequences of nodes. An element carries its type (here always the
  name of a host tag), its string-valued props in the order they are written, and its
  \<^verbatim>\<open>children\<close> prop. The layout never looks inside a number, so numbers are kept as
  integers.
\<close>

datatype react_node =
    Undefined
  | Null
  | Boolean bool
  | Number int
  | Text string
  | Element react_element
  | Array "react_node list"
and react_element =
    ReactElement (etype: string) (eprops: "(string \<times> string) list") (echildren: react_node)

text \<open>
  A JavaScript object is its list of own properties. Reading a property that the object
  does not have gives \<^verbatim>\<open>undefined\<close>.
\<close>

type_synonym 'v js_object = "(string \<times> 'v) list"

datatype 'v js_arg = ArgUndefined | ArgNull | ArgObject "'v js_object"

datatype js_error = TypeError

definition get_prop :: "'v \<Rightarrow> 'v js_object \<Rightarrow> string \<Rightarrow> 'v" where
  "get_prop undef ps k = (case map_of ps k of None \<Rightarrow> undef | Some v \<Rightarrow> v)"

subsection \<open>The component\<close>

text \<open>
  The parameter pattern \<^verbatim>\<open>({ children })\<close> destructures the single argument: it throws a
  \<^verbatim>\<open>TypeError\<close> when the argument is \<^verbatim>\<open>undefined\<close> or \<^verbatim>\<open>null\<close> (values that the type
  \<^verbatim>\<open>MarketingLayoutProps\<close> excludes) and reads the property \<^verbatim>\<open>children\<close> otherwise. An
  object of type \<^verbatim>\<open>MarketingLayoutProps\<close> may carry further properties; the pattern names
  none of them.
\<close>

type_synonym MarketingLayoutProps = "react_node js_object"

definition MarketingLayout :: "react_node js_arg \<Rightarrow> js_error + react_element" where
  "MarketingLayout props =
     (case props of
        ArgUndefined \<Rightarrow> Inl TypeError
      | ArgNull \<Rightarrow> Inl TypeError
      | ArgObject ps \<Rightarrow>
          (let children = get_prop Undefined ps ''children''
           in Inr (ReactElement ''div'' [(''className'', ''bg-slate-100 h-full'')]
                    (Element (ReactElement ''main'' [(''className'', ''pt-40 pb-20 bg-slate-100'')]
                       children)))))"

text \<open>
  The operation \<^verbatim>\<open>render(p)\<close> of the specification is the single call that passes the
  payload \<open>p\<close> as \<^verbatim>\<open>children\<close>.
\<close>

definition render :: "react_node \<Rightarrow> js_error + react_element" where
  "render p = MarketingLayout (ArgObject [(''children'', p)])"


subsection \<open>Presentation directives\<close>

text \<open>
  The presentation directives of an element are the tokens of its \<^verbatim>\<open>className\<close> prop,
  separated by spaces. A directive such as \<^verbatim>\<open>pt-40\<close> is a utility name followed by its
  argument; for the padding utilities the argument is a step of the spacing scale, written
  in decimal.
\<close>

fun tokens_from :: "string \<Rightarrow> string \<Rightarrow> string list" where
  "tokens_from cur [] = (if cur = [] then [] else [rev cur])"
| "tokens_from cur (c # cs) =
     (if c = CHR '' ''
      then (if cur = [] then tokens_from [] cs else rev cur # tokens_from [] cs)
      else tokens_from (c # cur) cs)"

definition class_tokens :: "string \<Rightarrow> string list" where
  "class_tokens s = tokens_from [] s"

definition directives :: "react_element \<Rightarrow> string list" where
  "directives e = (case map_of (eprops e) ''className'' of None \<Rightarrow> [] | Some s \<Rightarrow> class_tokens s)"

fun strip_prefix :: "string \<Rightarrow> string \<Rightarrow> string option" where
  "strip_prefix [] s = Some s"
| "strip_prefix (p # ps) [] = None"
| "strip_prefix (p # ps) (c # cs) = (if p = c then strip_prefix ps cs else None)"

fun utility_arg :: "string \<Rightarrow> string list \<Rightarrow> string option" where
  "utility_arg pre [] = None"
| "utility_arg pre (t # ts) =
     (case strip_prefix pre t of Some r \<Rightarrow> Some r | None \<Rightarrow> utility_arg pre ts)"

definition digit_val :: "char \<Rightarrow> nat option" where
  "digit_val c = (let n = (of_char c :: nat) in if 48 \<le> n \<and> n \<le> 57 then Some (n - 48) else None)"

fun decimal_from :: "nat \<Rightarrow> string \<Rightarrow> nat option" where
  "decimal_from acc [] = Some acc"
| "decimal_from acc (c # cs) =
     (case digit_val c of None \<Rightarrow> None | Some d \<Rightarrow> decimal_from (10 * acc + d) cs)"

definition decimal :: "string \<Rightarrow> nat option" where
  "decimal s = (if s = [] then None else decimal_from 0 s)"

definition spacing_step :: "string \<Rightarrow> react_element \<Rightarrow> nat option" where
  "spacing_step pre e =
     (case utility_arg pre (directives e) of None \<Rightarrow> None | Some r \<Rightarrow> decimal r)"

definition background :: "react_element \<Rightarrow> string option" where
  "background e = utility_arg ''bg-'' (directives e)"


subsection \<open>The component over an explicit store\<close>

text \<open>
  For the claims about identity, mutation and effects the same function is read a
  second time with JavaScript's reference semantics. A value is a primitive or a
  reference to an object of the heap; elements and arrays are heap objects. The world
  holds the heap, indexed by address, and the trace of input and output performed so far.
  React's production element constructor allocates one new element object and does
  nothing else.
\<close>

datatype js_val =
    VUndefined
  | VNull
  | VBoolean bool
  | VNumber int
  | VString string
  | VRef nat

datatype js_obj =
    ElementObj string "(string \<times> string) list" js_val
  | ArrayObj "js_val list"

record world =
  heap :: "js_obj list"
  io_trace :: "string list"

definition jsx :: "string \<Rightarrow> (string \<times> string) list \<Rightarrow> js_val \<Rightarrow> world \<Rightarrow> js_val \<times> world" where
  "jsx ty ps c w = (VRef (length (heap w)), w\<lparr>heap := heap w @ [ElementObj ty ps c]\<rparr>)"

definition MarketingLayout_st :: "js_val js_arg \<Rightarrow> world \<Rightarrow> (js_error + js_val) \<times> world" where
  "MarketingLayout_st props w =
     (case props of
        ArgUndefined \<Rightarrow> (Inl TypeError, w)
      | ArgNull \<Rightarrow> (Inl TypeError, w)
      | ArgObject ps \<Rightarrow>
          (let children = get_prop VUndefined ps ''children'';
               (inner, w1) = jsx ''main'' [(''className'', ''pt-40 pb-20 bg-slate-100'')] children w;
               (outer, w2) = jsx ''div'' [(''className'', ''bg-slate-100 h-full'')] inner w1
           in (Inr outer, w2)))"

definition render_st :: "js_val \<Rightarrow> world \<Rightarrow> (js_error + js_val) \<times> world" where
  "render_st p w = MarketingLayout_st (ArgObject [(''children'', p)]) w"

text \<open>
  The tree that a value denotes in a heap, read to a depth of at most \<open>n\<close> references;
  \<open>None\<close> when a reference dangles or the depth does not suffice.
\<close>

fun reify :: "nat \<Rightarrow> js_obj list \<Rightarrow> js_val \<Rightarrow> react_node option" where
  "reify n h VUndefined = Some Undefined"
| "reify n h VNull = Some Null"
| "reify n h (VBoolean b) = Some (Boolean b)"
| "reify n h (VNumber i) = Some (Number i)"
| "reify n h (VString s) = Some (Text s)"
| "reify 0 h (VRef a) = None"
| "reify (Suc n) h (VRef a) =
     (if a < length h
      then (case h ! a of
              ElementObj ty ps c \<Rightarrow>
                map_option (\<lambda>t. Element (ReactElement ty ps t)) (reify n h c)
            | ArrayObj vs \<Rightarrow> map_option Array (those (map (reify n h) vs)))
      else None)"

subsection \<open>The component under React's development constructor\<close>









section \<open>Basic facts\<close>

text \<open>What the component returns for a props object, in both readings.\<close>

lemma layout_object:
  "MarketingLayout (ArgObject ps) =
     Inr (ReactElement ''div'' [(''className'', ''bg-slate-100 h-full'')]
            (Element (ReactElement ''main'' [(''className'', ''pt-40 pb-20 bg-slate-100'')]
               (get_prop Undefined ps ''children''))))"
  by (simp add: MarketingLayout_def)

lemma render_eq:
  "render p =
     Inr (ReactElement ''div'' [(''className'', ''bg-slate-100 h-full'')]
            (Element (ReactElement ''main'' [(''className'', ''pt-40 pb-20 bg-slate-100'')] p)))"
  by (simp add: render_def layout_object get_prop_def)

lemma layout_st_object:
  "MarketingLayout_st (ArgObject ps) w =
     (Inr (VRef (Suc (length (heap w)))),
      w\<lparr>heap := heap w @
         [ElementObj ''main'' [(''className'', ''pt-40 pb-20 bg-slate-100'')] (get_prop VUndefined ps ''children''),
          ElementObj ''div'' [(''className'', ''bg-slate-100 h-full'')] (VRef (length (heap w)))]\<rparr>)"
  by (simp add: MarketingLayout_st_def jsx_def)

lemma render_st_eq:
  "render_st p w =
     (Inr (VRef (Suc (length (heap w)))),
      w\<lparr>heap := heap w @
         [ElementObj ''main'' [(''className'', ''pt-40 pb-20 bg-slate-100'')] p,
          ElementObj ''div'' [(''className'', ''bg-slate-100 h-full'')] (VRef (length (heap w)))]\<rparr>)"
  by (simp add: render_st_def layout_st_object get_prop_def)

text \<open>The directives of the two wrapper elements, computed from the class strings.\<close>

lemma outer_directives:
  "directives (ReactElement ''div'' [(''className'', ''bg-slate-100 h-full'')] c) = [''bg-slate-100'', ''h-full'']"
  by (simp add: directives_def class_tokens_def)

lemma inner_directives:
  "directives (ReactElement ''main'' [(''className'', ''pt-40 pb-20 bg-slate-100'')] c) = [''pt-40'', ''pb-20'', ''bg-slate-100'']"
  by (simp add: directives_def class_tokens_def)

lemma inner_padding_top:
  "spacing_step ''pt-'' (ReactElement ''main'' [(''className'', ''pt-40 pb-20 bg-slate-100'')] c) = Some 40"
  by (simp add: spacing_step_def inner_directives decimal_def digit_val_def)

lemma inner_padding_bottom:
  "spacing_step ''pb-'' (ReactElement ''main'' [(''className'', ''pt-40 pb-20 bg-slate-100'')] c) = Some 20"
  by (simp add: spacing_step_def inner_directives decimal_def digit_val_def)

lemma inner_background:
  "background (ReactElement ''main'' [(''className'', ''pt-40 pb-20 bg-slate-100'')] c) = Some ''slate-100''"
  by (simp add: background_def inner_directives)

lemma outer_background:
  "background (ReactElement ''div'' [(''className'', ''bg-slate-100 h-full'')] c) = Some ''slate-100''"
  by (simp add: background_def outer_directives)

text \<open>
  Allocation only appends to the heap, so a tree that a value denotes is still denoted
  after the heap has grown.
\<close>

lemma those_map_cong:
  "those (map f xs) = Some ts \<Longrightarrow> (\<And>x t. x \<in> set xs \<Longrightarrow> f x = Some t \<Longrightarrow> g x = Some t)
     \<Longrightarrow> those (map g xs) = Some ts"
proof (induction xs arbitrary: ts)
  case Nil
  then show ?case by simp
next
  case (Cons x xs)
  then show ?case by (auto split: option.splits)
qed

lemma reify_append:
  "reify n h v = Some t \<Longrightarrow> reify n (h @ ext) v = Some t"
proof (induction n arbitrary: v t)
  case 0
  then show ?case by (cases v) auto
next
  case (Suc n)
  show ?case
  proof (cases v)
    case (VRef a)
    with Suc.prems have a: "a < length h" by (auto split: if_splits)
    show ?thesis
    proof (cases "h ! a")
      case (ElementObj ty ps c)
      with Suc.prems VRef a obtain t' where "reify n h c = Some t'" "t = Element (ReactElement ty ps t')"
        by auto
      with Suc.IH ElementObj VRef a show ?thesis by (simp add: nth_append)
    next
      case (ArrayObj vs)
      with Suc.prems VRef a obtain ts where ts: "those (map (reify n h) vs) = Some ts" "t = Array ts"
        by auto
      from ts(1) have "those (map (reify n (h @ ext)) vs) = Some ts"
        by (rule those_map_cong) (rule Suc.IH)
      with ts ArrayObj VRef a show ?thesis by (simp add: nth_append)
    qed
  qed (use Suc.prems in auto)
qed








section \<open>Structure of the output tree\<close>

text \<open>
  C1. For every payload \<open>p\<close> (absent, a single node, or a sequence of nodes) the call
  returns a tree of exactly two wrapper levels: the outer element's \<^verbatim>\<open>children\<close> is one
  single element (the inner region), and the inner element's \<^verbatim>\<open>children\<close> is \<open>p\<close> itself,
  untransformed.
\<close>

theorem render_two_levels:
  "\<exists>outer inner. render p = Inr outer
      \<and> echildren outer = Element inner
      \<and> echildren inner = p"
  by (simp add: render_def MarketingLayout_def get_prop_def)

text \<open>
  C2. For any two payloads \<open>p\<close> and \<open>q\<close> the props of the outer elements agree and the
  props of the inner elements agree. Each element has the single prop \<^verbatim>\<open>className\<close>; the
  outer directives are the background and the full height, the inner directives are the
  top padding, the bottom padding and the same background, and there are no others.
\<close>

theorem directives_constant:
  "\<exists>op ip oq iq. render p = Inr op \<and> echildren op = Element ip
      \<and> render q = Inr oq \<and> echildren oq = Element iq
      \<and> eprops op = eprops oq \<and> eprops ip = eprops iq
      \<and> map fst (eprops op) = [''className''] \<and> map fst (eprops ip) = [''className'']
      \<and> directives op = [''bg-slate-100'', ''h-full'']
      \<and> directives ip = [''pt-40'', ''pb-20'', ''bg-slate-100'']"
  by (simp add: render_eq outer_directives inner_directives)

text \<open>
  C10. The outer element is a \<^verbatim>\<open>div\<close> whose only prop is the class string
  \<^verbatim>\<open>bg-slate-100 h-full\<close>, and the inner element is a \<^verbatim>\<open>main\<close> whose only prop is the
  class string \<^verbatim>\<open>pt-40 pb-20 bg-slate-100\<close>, whatever the payload.
\<close>

theorem literal_tags_and_classes:
  "\<exists>outer inner. render p = Inr outer \<and> echildren outer = Element inner
      \<and> etype outer = ''div'' \<and> eprops outer = [(''className'', ''bg-slate-100 h-full'')]
      \<and> etype inner = ''main'' \<and> eprops inner = [(''className'', ''pt-40 pb-20 bg-slate-100'')]"
  by (simp add: render_eq)

text \<open>
  C5. For the absent payload the result is still the whole tree, both wrappers with
  their class strings, and the inner slot holds \<^verbatim>\<open>undefined\<close>, that is, nothing. A props
  object without the property \<^verbatim>\<open>children\<close> gives the same tree.
\<close>

theorem render_absent:
  "render Undefined =
     Inr (ReactElement ''div'' [(''className'', ''bg-slate-100 h-full'')]
            (Element (ReactElement ''main'' [(''className'', ''pt-40 pb-20 bg-slate-100'')] Undefined)))
   \<and> MarketingLayout (ArgObject []) = render Undefined"
  by (simp add: render_eq layout_object get_prop_def)

text \<open>
  C6. A sequence of nodes is placed whole, in its order, into the one inner slot: for
  every list \<open>xs\<close>, and in particular for three nodes \<open>a\<close>, \<open>b\<close>, \<open>c\<close>.
\<close>

theorem render_sequence:
  "render (Array xs) =
     Inr (ReactElement ''div'' [(''className'', ''bg-slate-100 h-full'')]
            (Element (ReactElement ''main'' [(''className'', ''pt-40 pb-20 bg-slate-100'')] (Array xs))))
   \<and> (\<exists>outer inner. render (Array [a, b, c]) = Inr outer
         \<and> echildren outer = Element inner \<and> echildren inner = Array [a, b, c])"
  by (simp add: render_eq)

text \<open>
  C8. In every output tree the top padding of the inner region is step 40 of the spacing
  scale and its bottom padding is step 20: the top step is strictly larger, twice the
  bottom step, so every strictly increasing spacing scale resolves the top padding to a
  strictly larger value. The background of the inner region is that of the outer
  container.
\<close>

theorem padding_relation:
  assumes "strict_mono (scale :: nat \<Rightarrow> nat)"
  shows "\<exists>outer inner t b. render p = Inr outer \<and> echildren outer = Element inner
      \<and> spacing_step ''pt-'' inner = Some t \<and> spacing_step ''pb-'' inner = Some b
      \<and> t = 40 \<and> b = 20 \<and> b < t \<and> 2 * b \<le> t \<and> scale b < scale t
      \<and> background inner = background outer \<and> background outer = Some ''slate-100''"
proof -
  have "scale 20 < scale 40"
    using assms by (simp add: strict_mono_def)
  then show ?thesis
    by (simp add: render_eq inner_padding_top inner_padding_bottom inner_background
        outer_background)
qed

theorem padding_relation_witness:
  "strict_mono (\<lambda>n::nat. 4 * n) \<and>
   (\<exists>outer inner t b. render (Text ''Taskify'') = Inr outer \<and> echildren outer = Element inner
      \<and> spacing_step ''pt-'' inner = Some t \<and> spacing_step ''pb-'' inner = Some b
      \<and> t = 40 \<and> b = 20 \<and> b < t \<and> 2 * b \<le> t \<and> 4 * b < 4 * t
      \<and> background inner = background outer \<and> background outer = Some ''slate-100'')"
proof -
  have h: "strict_mono (\<lambda>n::nat. 4 * n)"
    by (simp add: strict_mono_def)
  show ?thesis
    using h padding_relation [OF h, of "Text ''Taskify''"] by simp
qed

section \<open>Inputs and failure\<close>

text \<open>
  C4. The call returns an element for every props object, whatever its \<^verbatim>\<open>children\<close>
  property holds and also when that property is missing; in particular \<open>render p\<close>
  returns for every payload \<open>p\<close>. The only failing branch is the destructuring of an
  argument that is not an object, which the parameter's type excludes.
\<close>

theorem render_total:
  "(\<exists>t. MarketingLayout (ArgObject ps) = Inr t) \<and> (\<exists>t. render p = Inr t)"
  by (simp add: layout_object render_eq)

text \<open>
  C9. The result depends on the props object through its \<^verbatim>\<open>children\<close> property only: two
  props objects with the same \<^verbatim>\<open>children\<close> give the same tree, whatever other properties
  (options, flags, route parameters) they carry.
\<close>

theorem only_children_matters:
  "get_prop Undefined ps ''children'' = get_prop Undefined ps' ''children''
     \<Longrightarrow> MarketingLayout (ArgObject ps) = MarketingLayout (ArgObject ps')"
  by (simp add: layout_object)

theorem only_children_matters_witness:
  "get_prop Undefined [(''children'', Text ''hi''), (''params'', Null), (''dark'', Boolean True)] ''children''
     = get_prop Undefined [(''children'', Text ''hi'')] ''children''
   \<and> MarketingLayout (ArgObject [(''children'', Text ''hi''), (''params'', Null), (''dark'', Boolean True)])
     = MarketingLayout (ArgObject [(''children'', Text ''hi'')])"
proof -
  have h: "get_prop Undefined [(''children'', Text ''hi''), (''params'', Null), (''dark'', Boolean True)] ''children''
     = get_prop Undefined [(''children'', Text ''hi'')] ''children''"
    by (simp add: get_prop_def)
  show ?thesis
    using h only_children_matters [OF h] by simp
qed

section \<open>Effects\<close>




text \<open>
  C7. The call does not mutate its payload: the tree that \<open>p\<close> denotes before the call
  is the tree it denotes afterwards. The heap after the call is the heap before it
  followed by the two new wrapper elements; the inner one holds the value \<open>p\<close> itself in
  its \<^verbatim>\<open>children\<close> slot (the same reference, when \<open>p\<close> is one), and no copy of the payload
  is allocated.
\<close>

theorem payload_unchanged:
  assumes "reify n (heap w) p = Some t"
  shows "\<exists>v w'. render_st p w = (Inr v, w')
      \<and> reify n (heap w') p = Some t
      \<and> heap w' = heap w @
          [ElementObj ''main'' [(''className'', ''pt-40 pb-20 bg-slate-100'')] p,
           ElementObj ''div'' [(''className'', ''bg-slate-100 h-full'')] (VRef (length (heap w)))]"
  using reify_append [OF assms] by (simp add: render_st_eq)

theorem payload_unchanged_witness:
  "reify 2 (heap \<lparr>heap = [ElementObj ''h1'' [] (VString ''Taskify''), ArrayObj [VRef 0, VNull]],
                  io_trace = []\<rparr>) (VRef 1)
     = Some (Array [Element (ReactElement ''h1'' [] (Text ''Taskify'')), Null])
   \<and> (\<exists>v w'. render_st (VRef 1)
                 \<lparr>heap = [ElementObj ''h1'' [] (VString ''Taskify''), ArrayObj [VRef 0, VNull]],
                  io_trace = []\<rparr> = (Inr v, w')
      \<and> reify 2 (heap w') (VRef 1)
          = Some (Array [Element (ReactElement ''h1'' [] (Text ''Taskify'')), Null])
      \<and> heap w' =
          [ElementObj ''h1'' [] (VString ''Taskify''), ArrayObj [VRef 0, VNull],
           ElementObj ''main'' [(''className'', ''pt-40 pb-20 bg-slate-100'')] (VRef 1),
           ElementObj ''div'' [(''className'', ''bg-slate-100 h-full'')] (VRef 2)])"
proof -
  let ?w = "\<lparr>heap = [ElementObj ''h1'' [] (VString ''Taskify''), ArrayObj [VRef 0, VNull]],
             io_trace = []\<rparr>"
  have h: "reify 2 (heap ?w) (VRef 1)
      = Some (Array [Element (ReactElement ''h1'' [] (Text ''Taskify'')), Null])"
    by code_simp
  from payload_unchanged [OF h] h show ?thesis
    by (simp add: numeral_2_eq_2)
qed

end
